theory Spec2Isabelle
  imports Main "HOL-Library.Word"
begin

section \<open>Data model (listings/models.py)\<close>

text \<open>
  The repository is a Django application. Its models are embedded as records, the
  database tables as lists of rows, Python exceptions as the left summand of a sum type.
  A UUID is its 128-bit integer; a date is its day ordinal (comparison and difference of
  dates are those of the ordinals); a \<^verbatim>\<open>Decimal\<close> with two decimal places is its number of
  hundredths. The timestamp columns \<^verbatim>\<open>created_at\<close> and \<^verbatim>\<open>updated_at\<close> are read by none of
  the modelled code and are left out of the rows.
\<close>

type_synonym uuid = "128 word"
type_synonym date = int
type_synonym decimal = int

text \<open>
  \<^verbatim>\<open>str(uuid)\<close>: 32 lower-case hexadecimal digits in the groups 8-4-4-4-12.
\<close>

definition hex_digit :: "nat \<Rightarrow> char" where
  "hex_digit d = ''0123456789abcdef'' ! (d mod 16)"

fun hex :: "nat \<Rightarrow> nat \<Rightarrow> string" where
  "hex 0 v = []"
| "hex (Suc w) v = hex w (v div 16) @ [hex_digit (v mod 16)]"

definition uuid_str :: "uuid \<Rightarrow> string" where
  "uuid_str u =
     (let h = hex 32 (unat u)
      in take 8 h @ ''-'' @ take 4 (drop 8 h) @ ''-'' @ take 4 (drop 12 h) @ ''-'' @
         take 4 (drop 16 h) @ ''-'' @ drop 20 h)"

text \<open>
  The exceptions the modelled code can raise. \<open>ValidationError\<close> is
  \<^verbatim>\<open>django.core.exceptions.ValidationError\<close> (raised by \<^verbatim>\<open>Booking.clean\<close>),
  \<open>SerializerValidationError\<close> is \<^verbatim>\<open>rest_framework.serializers.ValidationError\<close>
  (raised by \<^verbatim>\<open>BookingDetailSerializer.validate\<close>). \<open>AttributeError\<close> carries the class
  (or \<^verbatim>\<open>Settings\<close>) and the attribute name. \<open>IntegrityError\<close> names the column whose
  constraint the database refused the write for.
\<close>

datatype error =
    ValidationError string
  | SerializerValidationError string
  | AttributeError string string
  | KeyError string
  | TypeError string
  | DoesNotExist string
  | IntegrityError string

text \<open>
  The Python and JSON values that travel in request and response bodies.
  \<open>PFormat t vs\<close> is the string an f-string or \<^verbatim>\<open>str()\<close> builds from the template \<open>t\<close>
  and the values \<open>vs\<close> (the digits of a Decimal or a date are not spelled out:
  \<^verbatim>\<open>str(d)\<close> is \<open>PFormat ''{}'' [PDecimal d]\<close>); \<open>PObject n\<close> is an object the model does
  not look into (a bound method, a related object, a timestamp).
\<close>

datatype pyval =
    PNone
  | PStr string
  | PInt int
  | PDecimal decimal
  | PDate date
  | PUUID uuid
  | PObject string
  | PFormat string "pyval list"
  | PDict "(string \<times> pyval) list"

text \<open>\<^verbatim>\<open>User.email\<close> is declared \<^verbatim>\<open>unique=True\<close>; \<^verbatim>\<open>Listing.host\<close> is a foreign key to a user.\<close>

record User =
  user_id :: uuid
  email :: string
  first_name :: string
  last_name :: string

record Listing =
  property_id :: uuid
  host :: uuid
  name :: string
  description :: string
  location :: string
  pricepernight :: decimal

text \<open>
  \<^verbatim>\<open>Booking.property\<close> and \<^verbatim>\<open>Booking.user\<close> are foreign keys (the row stores the key);
  \<^verbatim>\<open>status\<close> is a \<^verbatim>\<open>CharField\<close>: the table stores any string, the three choices are
  enforced by form and serializer validation only.
\<close>

record Booking =
  booking_id :: uuid
  property :: uuid
  user :: uuid
  start_date :: date
  end_date :: date
  status :: string

text \<open>
  \<^verbatim>\<open>Payment.booking\<close> is a \<^verbatim>\<open>OneToOneField\<close> (a unique foreign key),
  \<^verbatim>\<open>booking_reference\<close> is declared \<^verbatim>\<open>unique=True\<close>, \<^verbatim>\<open>transaction_id\<close> is nullable
  (\<open>PNone\<close>) and is assigned a value taken from the gateway's JSON.
\<close>

record Payment =
  payment_id :: uuid
  booking :: uuid
  amount :: decimal
  transaction_id :: pyval
  booking_reference :: string
  status :: string
  payment_method :: string

text \<open>
  One HTTP call to the payment gateway, and what comes back: a transport failure
  (\<^verbatim>\<open>requests.exceptions.RequestException\<close>, with its text) or a status code with the
  JSON object of the body.
\<close>

datatype chapa_call =
    Chapa_post string "(string \<times> pyval) list" "(string \<times> pyval) list"
  | Chapa_get string "(string \<times> pyval) list"

datatype http_result =
    RequestException string
  | HttpResponse nat "(string \<times> pyval) list"

text \<open>A job on the Celery queue: the task \<^verbatim>\<open>send_booking_confirmation_email\<close> with its argument.\<close>

datatype task = Send_booking_confirmation_email pyval

text \<open>
  The persistent state: the four tables, the calls made to the gateway so far, and the
  jobs enqueued so far. The views open no transaction, so every ORM write is committed
  when it is made (Django's autocommit).
\<close>

record state =
  users :: "User list"
  listings :: "Listing list"
  bookings :: "Booking list"
  payments :: "Payment list"
  chapa_log :: "chapa_call list"
  task_queue :: "task list"

text \<open>\<^verbatim>\<open>rest_framework.response.Response(body, status=code)\<close>.\<close>

record response =
  status_code :: nat
  body :: "(string \<times> pyval) list"

section \<open>Derived fields of a booking (models.py, Booking)\<close>

text \<open>
  \<^verbatim>\<open>number_of_nights\<close>: both dates of a row are set (the columns are not nullable), so the
  guard \<^verbatim>\<open>if self.start_date and self.end_date\<close> holds and the result is the difference in
  days. \<^verbatim>\<open>total_price\<close> follows the foreign key to the listing; fetching a listing that is
  not stored raises \<^verbatim>\<open>DoesNotExist\<close>.
\<close>

definition number_of_nights :: "Booking \<Rightarrow> int" where
  "number_of_nights self = end_date self - start_date self"

definition total_price :: "state \<Rightarrow> Booking \<Rightarrow> error + decimal" where
  "total_price s self =
     (case find (\<lambda>l. property_id l = property self) (listings s) of
        None \<Rightarrow> Inl (DoesNotExist ''Booking has no property.'')
      | Some l \<Rightarrow> Inr (number_of_nights self * pricepernight l))"

section \<open>Availability validation\<close>

subsection \<open>Booking.clean (models.py, lines 103-115)\<close>

text \<open>
  The date check comes first. The overlap query is built with \<^verbatim>\<open>property=self.property\<close>,
  which fetches the booking's listing (\<^verbatim>\<open>DoesNotExist\<close> when it is not stored); it filters
  on the property and the two date bounds only: no status filter, and the instance's own
  row is not excluded.
\<close>

definition Booking_clean :: "state \<Rightarrow> Booking \<Rightarrow> error + unit" where
  "Booking_clean s self =
     (if start_date self \<ge> end_date self
      then Inl (ValidationError ''End date must be after start date.'')
      else
        (case find (\<lambda>l. property_id l = property self) (listings s) of
           None \<Rightarrow> Inl (DoesNotExist ''Booking has no property.'')
         | Some l \<Rightarrow>
             let overlapping_bookings =
                   filter (\<lambda>b. property b = property_id l
                              \<and> start_date b < end_date self
                              \<and> end_date b > start_date self) (bookings s)
             in if overlapping_bookings \<noteq> []
                then Inl (ValidationError
                            ''This property is already booked for the selected dates.'')
                else Inr ()))"

subsection \<open>BookingDetailSerializer.validate (serializers.py, lines 177-203)\<close>

text \<open>
  \<open>attrs\<close> is the dictionary of validated fields; \<^verbatim>\<open>attrs.get(k)\<close> is \<open>None\<close> for a key
  the request left out (a partial update). A date and a UUID are always truthy, so
  \<^verbatim>\<open>if start_date and end_date\<close> and \<^verbatim>\<open>if property_id\<close> test presence.
  \<open>self_instance\<close> is \<^verbatim>\<open>self.instance\<close>: the booking being updated, \<open>None\<close> on creation.
\<close>

record attrs =
  attr_start_date :: "date option"
  attr_end_date :: "date option"
  attr_property_id :: "uuid option"
  attr_user_id :: "uuid option"
  attr_status :: "string option"

definition BookingDetailSerializer_validate ::
    "state \<Rightarrow> Booking option \<Rightarrow> attrs \<Rightarrow> error + attrs" where
  "BookingDetailSerializer_validate s self_instance a =
     (case (attr_start_date a, attr_end_date a) of
        (Some start, Some end) \<Rightarrow>
          if start \<ge> end
          then Inl (SerializerValidationError ''End date must be after start date.'')
          else
            (case attr_property_id a of
               Some pid \<Rightarrow>
                 let overlapping_bookings =
                       filter (\<lambda>b. property b = pid
                                  \<and> start_date b < end
                                  \<and> end_date b > start
                                  \<and> Booking.status b = ''confirmed'') (bookings s);
                     overlapping_bookings =
                       (case self_instance of
                          Some x \<Rightarrow>
                            filter (\<lambda>b. booking_id b \<noteq> booking_id x) overlapping_bookings
                        | None \<Rightarrow> overlapping_bookings)
                 in if overlapping_bookings \<noteq> []
                    then Inl (SerializerValidationError
                                ''This property is already booked for the selected dates.'')
                    else Inr a
             | None \<Rightarrow> Inr a)
      | _ \<Rightarrow> Inr a)"

section \<open>Attribute access\<close>

text \<open>
  Reading an attribute that neither the class body nor Django's \<^verbatim>\<open>Model\<close> defines raises
  \<^verbatim>\<open>AttributeError\<close>. The tables below list the public attributes of an instance: the
  declared fields, the names Django derives from them (\<^verbatim>\<open>pk\<close>, the \<^verbatim>\<open>_id\<close> column of a
  foreign key, \<^verbatim>\<open>get_status_display\<close> for the field with choices, \<^verbatim>\<open>get_next_by_\<close> and
  \<^verbatim>\<open>get_previous_by_\<close> for the date columns), the properties, methods and constants of the
  class body and the public methods of \<^verbatim>\<open>Model\<close>. A model that declares its own primary key
  (\<^verbatim>\<open>booking_id\<close>, \<^verbatim>\<open>payment_id\<close>) gets no automatic \<^verbatim>\<open>id\<close> field. A related object is
  fetched when it is read: \<^verbatim>\<open>DoesNotExist\<close> when it is not stored, as for the reverse
  accessor \<^verbatim>\<open>booking.payment\<close> of a booking without payment.
\<close>

definition inherited_attributes :: "string list" where
  "inherited_attributes =
     [''save'', ''asave'', ''delete'', ''adelete'', ''save_base'', ''clean'', ''full_clean'',
      ''clean_fields'', ''validate_unique'', ''validate_constraints'', ''get_constraints'',
      ''refresh_from_db'', ''arefresh_from_db'', ''serializable_value'',
      ''get_deferred_fields'', ''prepare_database_save'', ''unique_error_message'',
      ''date_error_message'', ''from_db'', ''check'', ''DoesNotExist'',
      ''MultipleObjectsReturned'', ''created_at'', ''updated_at'', ''get_status_display'',
      ''get_next_by_created_at'', ''get_previous_by_created_at'',
      ''get_next_by_updated_at'', ''get_previous_by_updated_at'']"

definition Booking_getattr :: "state \<Rightarrow> Booking \<Rightarrow> string \<Rightarrow> error + pyval" where
  "Booking_getattr s self a =
     (if a = ''booking_id'' \<or> a = ''pk'' then Inr (PUUID (booking_id self))
      else if a = ''property_id'' then Inr (PUUID (property self))
      else if a = ''user_id'' then Inr (PUUID (user self))
      else if a = ''start_date'' then Inr (PDate (start_date self))
      else if a = ''end_date'' then Inr (PDate (end_date self))
      else if a = ''status'' then Inr (PStr (Booking.status self))
      else if a = ''number_of_nights'' then Inr (PInt (number_of_nights self))
      else if a = ''total_price'' then map_sum id PDecimal (total_price s self)
      else if a = ''property''
      then (if list_ex (\<lambda>l. property_id l = property self) (listings s)
            then Inr (PObject a) else Inl (DoesNotExist ''Booking has no property.''))
      else if a = ''user''
      then (if list_ex (\<lambda>u. user_id u = user self) (users s)
            then Inr (PObject a) else Inl (DoesNotExist ''Booking has no user.''))
      else if a = ''payment''
      then (if list_ex (\<lambda>p. booking p = booking_id self) (payments s)
            then Inr (PObject a) else Inl (DoesNotExist ''Booking has no payment.''))
      else if a \<in> set ([''STATUS_CHOICES'', ''get_next_by_start_date'',
                         ''get_previous_by_start_date'', ''get_next_by_end_date'',
                         ''get_previous_by_end_date''] @ inherited_attributes)
      then Inr (PObject a)
      else Inl (AttributeError ''Booking'' a))"

definition Payment_getattr :: "state \<Rightarrow> Payment \<Rightarrow> string \<Rightarrow> error + pyval" where
  "Payment_getattr s self a =
     (if a = ''payment_id'' \<or> a = ''pk'' then Inr (PUUID (payment_id self))
      else if a = ''booking_id'' then Inr (PUUID (booking self))
      else if a = ''amount'' then Inr (PDecimal (amount self))
      else if a = ''transaction_id'' then Inr (transaction_id self)
      else if a = ''booking_reference'' then Inr (PStr (booking_reference self))
      else if a = ''status'' then Inr (PStr (Payment.status self))
      else if a = ''payment_method'' then Inr (PStr (payment_method self))
      else if a = ''booking''
      then (if list_ex (\<lambda>b. booking_id b = booking self) (bookings s)
            then Inr (PObject a) else Inl (DoesNotExist ''Payment has no booking.''))
      else if a \<in> set ([''PAYMENT_STATUS_CHOICES''] @ inherited_attributes)
      then Inr (PObject a)
      else Inl (AttributeError ''Payment'' a))"

text \<open>
  Attribute access on, and a call of, a value the model does not look into stay opaque.
\<close>

definition pyval_getattr :: "pyval \<Rightarrow> string \<Rightarrow> error + pyval" where
  "pyval_getattr v a =
     (case v of
        PObject n \<Rightarrow> Inr (PObject (n @ ''.'' @ a))
      | _ \<Rightarrow> Inl (AttributeError ''object'' a))"

definition pyval_call :: "pyval \<Rightarrow> pyval list \<Rightarrow> error + pyval" where
  "pyval_call f args =
     (case f of
        PObject n \<Rightarrow> Inr (PObject (n @ ''()''))
      | _ \<Rightarrow> Inl (TypeError ''object is not callable''))"

text \<open>\<^verbatim>\<open>d[k]\<close> on a JSON value: \<^verbatim>\<open>KeyError\<close> on a missing key, \<^verbatim>\<open>TypeError\<close> on a non-object.\<close>

definition subscript :: "pyval \<Rightarrow> string \<Rightarrow> error + pyval" where
  "subscript v k =
     (case v of
        PDict d \<Rightarrow> (case map_of d k of None \<Rightarrow> Inl (KeyError k) | Some x \<Rightarrow> Inr x)
      | _ \<Rightarrow> Inl (TypeError ''value is not subscriptable''))"

section \<open>The ORM operations the views use\<close>

text \<open>
  A value a client sends where a UUID is expected: nothing, a value that denotes a UUID
  (its canonical text, say), or a value that denotes none. \<^verbatim>\<open>UUIDField\<close> raises
  \<^verbatim>\<open>ValidationError\<close> when it is asked to look up a value of the last kind.
\<close>

datatype uuid_input = No_value | Denotes uuid | Denotes_no_uuid pyval

text \<open>
  \<^verbatim>\<open>Booking.objects.get(booking_id=...)\<close>: the row with that primary key, or
  \<^verbatim>\<open>DoesNotExist\<close> (\<open>None\<close>); a lookup with \<^verbatim>\<open>None\<close> matches no row; a value that denotes
  no UUID raises \<^verbatim>\<open>ValidationError\<close> (its message quotes the value; the fixed part of
  the message is kept here).
\<close>

definition Booking_objects_get :: "state \<Rightarrow> uuid_input \<Rightarrow> error + Booking option" where
  "Booking_objects_get s k =
     (case k of
        No_value \<Rightarrow> Inr None
      | Denotes i \<Rightarrow> Inr (find (\<lambda>b. booking_id b = i) (bookings s))
      | Denotes_no_uuid v \<Rightarrow> Inl (ValidationError ''is not a valid UUID.''))"

text \<open>
  The \<^verbatim>\<open>create\<close> of a manager inserts a row after the database has checked the declared
  constraints: the primary key and a \<^verbatim>\<open>unique=True\<close> column are unique, a foreign key is
  not null and names a stored row. Neither \<^verbatim>\<open>create\<close> nor \<^verbatim>\<open>save\<close> calls
  \<^verbatim>\<open>Model.clean\<close>. A status left out takes the field's default.
\<close>

definition User_objects_create :: "state \<Rightarrow> User \<Rightarrow> error + state" where
  "User_objects_create s u =
     (if list_ex (\<lambda>x. user_id x = user_id u) (users s)
      then Inl (IntegrityError ''user_id'')
      else if list_ex (\<lambda>x. email x = email u) (users s)
      then Inl (IntegrityError ''email'')
      else Inr (s\<lparr>users := users s @ [u]\<rparr>))"

definition Listing_objects_create :: "state \<Rightarrow> Listing \<Rightarrow> error + state" where
  "Listing_objects_create s l =
     (if list_ex (\<lambda>x. property_id x = property_id l) (listings s)
      then Inl (IntegrityError ''property_id'')
      else if list_ex (\<lambda>u. user_id u = host l) (users s)
      then Inr (s\<lparr>listings := listings s @ [l]\<rparr>)
      else Inl (IntegrityError ''host_id''))"

definition Booking_objects_create ::
    "state \<Rightarrow> uuid \<Rightarrow> uuid option \<Rightarrow> uuid \<Rightarrow> date \<Rightarrow> date \<Rightarrow> string option
       \<Rightarrow> error + (Booking \<times> state)" where
  "Booking_objects_create s new_id prop usr start end st =
     (case prop of
        None \<Rightarrow> Inl (IntegrityError ''property_id'')
      | Some pid \<Rightarrow>
          if list_ex (\<lambda>b. booking_id b = new_id) (bookings s)
          then Inl (IntegrityError ''booking_id'')
          else if list_ex (\<lambda>l. property_id l = pid) (listings s)
          then
            (if list_ex (\<lambda>u. user_id u = usr) (users s)
             then
               let b = \<lparr>booking_id = new_id, property = pid, user = usr,
                        start_date = start, end_date = end,
                        status = (case st of None \<Rightarrow> ''pending'' | Some v \<Rightarrow> v)\<rparr>
               in Inr (b, s\<lparr>bookings := bookings s @ [b]\<rparr>)
             else Inl (IntegrityError ''user_id''))
          else Inl (IntegrityError ''property_id''))"

text \<open>
  The INSERT of a payment row. The one-to-one field and \<^verbatim>\<open>booking_reference\<close> are unique
  columns, \<^verbatim>\<open>payment_id\<close> is the primary key, and the booking must exist (foreign key): a
  row that breaks one of these is refused with \<^verbatim>\<open>IntegrityError\<close>.
\<close>

definition Payment_insert :: "state \<Rightarrow> Payment \<Rightarrow> error + state" where
  "Payment_insert s p =
     (if list_ex (\<lambda>q. booking q = booking p) (payments s)
      then Inl (IntegrityError ''booking_id'')
      else if list_ex (\<lambda>q. booking_reference q = booking_reference p) (payments s)
      then Inl (IntegrityError ''booking_reference'')
      else if list_ex (\<lambda>q. payment_id q = payment_id p) (payments s)
      then Inl (IntegrityError ''payment_id'')
      else if list_ex (\<lambda>b. booking_id b = booking p) (bookings s)
      then Inr (s\<lparr>payments := payments s @ [p]\<rparr>)
      else Inl (IntegrityError ''booking_id''))"

text \<open>
  \<^verbatim>\<open>Payment.objects.create(booking=..., amount=..., booking_reference=...)\<close>: the columns
  not given take their defaults, then the row is inserted.
\<close>

definition Payment_objects_create ::
    "state \<Rightarrow> uuid \<Rightarrow> Booking \<Rightarrow> decimal \<Rightarrow> string \<Rightarrow> error + (Payment \<times> state)" where
  "Payment_objects_create s new_id bk amt ref =
     (let p = \<lparr>payment_id = new_id, booking = booking_id bk, amount = amt,
               transaction_id = PNone, booking_reference = ref,
               status = ''pending'', payment_method = ''chapa''\<rparr>
      in case Payment_insert s p of
           Inl err \<Rightarrow> Inl err
         | Inr s1 \<Rightarrow> Inr (p, s1))"

text \<open>
  \<^verbatim>\<open>instance.save()\<close> on a row that was read or created in the same request: an UPDATE of
  the row with the instance's primary key.
\<close>

definition Booking_save :: "state \<Rightarrow> Booking \<Rightarrow> state" where
  "Booking_save s b =
     s\<lparr>bookings := map (\<lambda>r. if booking_id r = booking_id b then b else r) (bookings s)\<rparr>"

definition Payment_save :: "state \<Rightarrow> Payment \<Rightarrow> state" where
  "Payment_save s p =
     s\<lparr>payments := map (\<lambda>r. if payment_id r = payment_id p then p else r) (payments s)\<rparr>"

section \<open>What a request brings with it\<close>

text \<open>
  The environment of one request: the authenticated user, the upper-case names of the
  project's settings module with their values, \<^verbatim>\<open>request.build_absolute_uri\<close>, the primary
  key \<^verbatim>\<open>uuid.uuid4\<close> draws for a row created in the request, and the gateway's answer to a
  call.
\<close>

record env =
  request_user :: User
  settings_module :: "string \<rightharpoonup> pyval"
  build_absolute_uri :: "string \<Rightarrow> string"
  new_uuid :: uuid
  chapa :: "chapa_call \<Rightarrow> http_result"

section \<open>django.conf.settings\<close>

text \<open>
  The settings object takes over the names of the settings module that are upper case
  (\<^verbatim>\<open>str.isupper\<close>: some cased character, and no lower-case one) and no other name; reading
  any other attribute of it raises \<^verbatim>\<open>AttributeError\<close>. Both payment handlers read
  \<^verbatim>\<open>settings.env\<close> and call it with the name of the gateway key.
\<close>

definition isupper :: "string \<Rightarrow> bool" where
  "isupper a =
     (list_ex (\<lambda>c. c \<in> set ''ABCDEFGHIJKLMNOPQRSTUVWXYZ'') a
      \<and> \<not> list_ex (\<lambda>c. c \<in> set ''abcdefghijklmnopqrstuvwxyz'') a)"

definition settings_getattr :: "env \<Rightarrow> string \<Rightarrow> error + pyval" where
  "settings_getattr e a =
     (if isupper a
      then (case settings_module e a of
              None \<Rightarrow> Inl (AttributeError ''Settings'' a)
            | Some v \<Rightarrow> Inr v)
      else Inl (AttributeError ''Settings'' a))"

definition settings_env :: "env \<Rightarrow> string \<Rightarrow> error + pyval" where
  "settings_env e key =
     (case settings_getattr e ''env'' of
        Inl err \<Rightarrow> Inl err
      | Inr f \<Rightarrow> pyval_call f [PStr key])"

section \<open>BookingViewSet.perform_create (views.py, lines 42-49)\<close>

text \<open>
  \<^verbatim>\<open>perform_create(self, serializer)\<close> is handed the serializer; \<open>serializer_save\<close> is its
  \<^verbatim>\<open>save(user=...)\<close>. After the save the view reads \<^verbatim>\<open>booking.id\<close> and enqueues the task
  with it (\<^verbatim>\<open>.delay\<close> returns at once; the view does not look at the task's result).
\<close>

type_synonym serializer_save = "User \<Rightarrow> state \<Rightarrow> error + (Booking \<times> state)"

definition perform_create :: "serializer_save \<Rightarrow> env \<Rightarrow> state \<Rightarrow> (error + Booking) \<times> state" where
  "perform_create serializer_save e s =
     (case serializer_save (request_user e) s of
        Inl err \<Rightarrow> (Inl err, s)
      | Inr (bk, s1) \<Rightarrow>
          (case Booking_getattr s1 bk ''id'' of
             Inl err \<Rightarrow> (Inl err, s1)
           | Inr v \<Rightarrow>
               (Inr bk, s1\<lparr>task_queue := task_queue s1 @ [Send_booking_confirmation_email v]\<rparr>)))"

text \<open>
  The serializer the view hands over is a \<^verbatim>\<open>BookingListSerializer\<close>
  (\<^verbatim>\<open>serializer_class\<close>, views.py line 39). Of its \<^verbatim>\<open>Meta.fields\<close>, the writable ones are
  \<^verbatim>\<open>start_date\<close>, \<^verbatim>\<open>end_date\<close> and \<^verbatim>\<open>status\<close> (\<^verbatim>\<open>booking_id\<close> and \<^verbatim>\<open>created_at\<close> are not
  editable, the others are declared read-only); \<^verbatim>\<open>property\<close> is not among the fields, and
  the serializer defines no \<^verbatim>\<open>validate\<close>. Its \<^verbatim>\<open>save(user=...)\<close> hands the three values,
  with the user, to \<^verbatim>\<open>Booking.objects.create\<close>. \<open>BookingViewSet_create\<close> is
  \<^verbatim>\<open>perform_create\<close> as the view calls it, on data whose dates are well-formed.
\<close>

record BookingList_data =
  data_start_date :: date
  data_end_date :: date
  data_status :: "string option"

definition BookingListSerializer_save :: "env \<Rightarrow> BookingList_data \<Rightarrow> serializer_save" where
  "BookingListSerializer_save e serializer usr s =
     Booking_objects_create s (new_uuid e) None (user_id usr)
       (data_start_date serializer) (data_end_date serializer) (data_status serializer)"

definition BookingViewSet_create ::
    "env \<Rightarrow> BookingList_data \<Rightarrow> state \<Rightarrow> (error + Booking) \<times> state" where
  "BookingViewSet_create e serializer s =
     perform_create (BookingListSerializer_save e serializer) e s"

section \<open>PaymentViewSet.initiate_payment (views.py, lines 58-123)\<close>

record initiate_data =
  data_booking_id :: uuid_input
  data_return_url :: "string option"

text \<open>The headers (lines 77-80): the first value reads \<^verbatim>\<open>settings.env\<close>.\<close>

definition initiate_headers :: "env \<Rightarrow> error + (string \<times> pyval) list" where
  "initiate_headers e =
     (case settings_env e ''CHAPA_SECRET_KEY'' of
        Inl err \<Rightarrow> Inl err
      | Inr k \<Rightarrow>
          Inr [(''Authorization'', PFormat ''Bearer {}'' [k]),
               (''Content-Type'', PStr ''application/json'')])"

text \<open>
  The payload dictionary (lines 82-95); its values are evaluated in the order written,
  and the first read that raises ends the request.
\<close>

definition initiate_payload ::
    "env \<Rightarrow> initiate_data \<Rightarrow> state \<Rightarrow> Booking \<Rightarrow> Payment \<Rightarrow> error + (string \<times> pyval) list" where
  "initiate_payload e data s bk payment =
     (case total_price s bk of
        Inl err \<Rightarrow> Inl err
      | Inr price \<Rightarrow>
     (case Payment_getattr s payment ''reference'' of
        Inl err \<Rightarrow> Inl err
      | Inr tx_ref \<Rightarrow>
     (case Booking_getattr s bk ''listing'' of
        Inl err \<Rightarrow> Inl err
      | Inr lst \<Rightarrow>
     (case pyval_getattr lst ''title'' of
        Inl err \<Rightarrow> Inl err
      | Inr title \<Rightarrow>
     (case Booking_getattr s bk ''check_in_date'' of
        Inl err \<Rightarrow> Inl err
      | Inr check_in \<Rightarrow>
     (case Booking_getattr s bk ''check_out_date'' of
        Inl err \<Rightarrow> Inl err
      | Inr check_out \<Rightarrow>
          Inr [(''amount'', PFormat ''{}'' [PDecimal price]),
               (''currency'', PStr ''ETB''),
               (''email'', PStr (email (request_user e))),
               (''first_name'', PStr (first_name (request_user e))),
               (''last_name'', PStr (last_name (request_user e))),
               (''tx_ref'', tx_ref),
               (''callback_url'', PStr (build_absolute_uri e ''/api/payments/verify/'')),
               (''return_url'',
                  PStr (case data_return_url data of
                          None \<Rightarrow> ''http://localhost:3000/payment/success''
                        | Some u \<Rightarrow> u)),
               (''customization'',
                  PDict [(''title'', PFormat ''Payment for {}'' [title]),
                         (''description'',
                            PFormat ''Booking from {} to {}'' [check_in, check_out])])]))))))"

text \<open>The gateway call and the handling of its answer (lines 97-123).\<close>

definition initiate_call ::
    "env \<Rightarrow> state \<Rightarrow> Payment \<Rightarrow> (string \<times> pyval) list \<Rightarrow> (string \<times> pyval) list
       \<Rightarrow> (error + response) \<times> state" where
  "initiate_call e s payment headers payload =
     (let call = Chapa_post ''https://api.chapa.co/v1/transaction/initialize'' headers payload;
          s1 = s\<lparr>chapa_log := chapa_log s @ [call]\<rparr>
      in case chapa e call of
           RequestException msg \<Rightarrow>
             (Inr \<lparr>status_code = 500, body = [(''error'', PStr msg)]\<rparr>,
              Payment_save s1 (payment\<lparr>Payment.status := ''failed''\<rparr>))
         | HttpResponse code response_data \<Rightarrow>
             if code = 200 \<and> map_of response_data ''status'' = Some (PStr ''success'')
             then
               (case subscript (PDict response_data) ''data'' of
                  Inl err \<Rightarrow> (Inl err, s1)
                | Inr d \<Rightarrow>
               (case subscript d ''tx_ref'' of
                  Inl err \<Rightarrow> (Inl err, s1)
                | Inr tx \<Rightarrow>
                   let payment1 = payment\<lparr>transaction_id := tx\<rparr>;
                       s2 = Payment_save s1 payment1
                   in (case subscript d ''checkout_url'' of
                         Inl err \<Rightarrow> (Inl err, s2)
                       | Inr url \<Rightarrow>
                      (case Payment_getattr s2 payment1 ''reference'' of
                         Inl err \<Rightarrow> (Inl err, s2)
                       | Inr r \<Rightarrow>
                           (Inr \<lparr>status_code = 200,
                                 body = [(''payment_url'', url), (''reference'', r),
                                         (''status'', PStr ''success'')]\<rparr>, s2)))))
             else
               (Inr \<lparr>status_code = 400,
                     body = [(''error'',
                               (case map_of response_data ''message'' of
                                  None \<Rightarrow> PStr ''Payment initiation failed''
                                | Some m \<Rightarrow> m))]\<rparr>,
                Payment_save s1 (payment\<lparr>Payment.status := ''failed''\<rparr>)))"

text \<open>
  The handler: the lookup (only \<^verbatim>\<open>Booking.DoesNotExist\<close> is caught), the insert, the
  headers, the payload, the call.
\<close>

definition initiate_payment ::
    "env \<Rightarrow> initiate_data \<Rightarrow> state \<Rightarrow> (error + response) \<times> state" where
  "initiate_payment e data s =
     (case Booking_objects_get s (data_booking_id data) of
        Inl err \<Rightarrow> (Inl err, s)
      | Inr None \<Rightarrow>
          (Inr \<lparr>status_code = 404, body = [(''error'', PStr ''Booking not found'')]\<rparr>, s)
      | Inr (Some bk) \<Rightarrow>
          (case total_price s bk of
             Inl err \<Rightarrow> (Inl err, s)
           | Inr amt \<Rightarrow>
          (case Payment_objects_create s (new_uuid e) bk amt
                  (''BK-'' @ uuid_str (booking_id bk)) of
             Inl err \<Rightarrow> (Inl err, s)
           | Inr (payment, s1) \<Rightarrow>
          (case initiate_headers e of
             Inl err \<Rightarrow> (Inl err, s1)
           | Inr headers \<Rightarrow>
          (case initiate_payload e data s1 bk payment of
             Inl err \<Rightarrow> (Inl err, s1)
           | Inr payload \<Rightarrow> initiate_call e s1 payment headers payload)))))"

section \<open>PaymentViewSet.verify_payment (views.py, lines 126-171)\<close>

text \<open>The headers (lines 142-144), built before the \<^verbatim>\<open>try\<close>.\<close>

definition verify_headers :: "env \<Rightarrow> error + (string \<times> pyval) list" where
  "verify_headers e =
     (case settings_env e ''CHAPA_SECRET_KEY'' of
        Inl err \<Rightarrow> Inl err
      | Inr k \<Rightarrow> Inr [(''Authorization'', PFormat ''Bearer {}'' [k])])"

text \<open>
  The \<^verbatim>\<open>try\<close> block with its \<^verbatim>\<open>except\<close> (lines 146-171): the call, and the updates that
  follow its answer. On success the booking is saved first, then the payment.
\<close>

definition verify_try ::
    "env \<Rightarrow> string \<Rightarrow> (string \<times> pyval) list \<Rightarrow> Payment \<Rightarrow> state
       \<Rightarrow> (error + response) \<times> state" where
  "verify_try e tx_ref headers payment s =
     (let call = Chapa_get (''https://api.chapa.co/v1/transaction/verify/'' @ tx_ref) headers;
          s1 = s\<lparr>chapa_log := chapa_log s @ [call]\<rparr>
      in case chapa e call of
           RequestException msg \<Rightarrow>
             (Inr \<lparr>status_code = 500, body = [(''error'', PStr msg)]\<rparr>, s1)
         | HttpResponse code response_data \<Rightarrow>
             if code = 200 \<and> map_of response_data ''status'' = Some (PStr ''success'')
             then
               (case subscript (PDict response_data) ''data'' of
                  Inl err \<Rightarrow> (Inl err, s1)
                | Inr d \<Rightarrow>
               (case subscript d ''status'' of
                  Inl err \<Rightarrow> (Inl err, s1)
                | Inr chapa_status \<Rightarrow>
                   (case (if chapa_status = PStr ''success''
                          then (case find (\<lambda>b. booking_id b = booking payment) (bookings s1) of
                                  None \<Rightarrow> Inl (DoesNotExist ''Payment has no booking.'')
                                | Some bk \<Rightarrow>
                                    Inr (payment\<lparr>Payment.status := ''completed''\<rparr>,
                                         Booking_save s1 (bk\<lparr>Booking.status := ''confirmed''\<rparr>)))
                          else Inr (payment\<lparr>Payment.status := ''failed''\<rparr>, s1)) of
                      Inl err \<Rightarrow> (Inl err, s1)
                    | Inr (payment1, s2) \<Rightarrow>
                        (Inr \<lparr>status_code = 200,
                              body = [(''reference'', PStr (booking_reference payment1)),
                                      (''status'', PStr (Payment.status payment1)),
                                      (''amount'', PFormat ''{}'' [PDecimal (amount payment1)])]\<rparr>,
                         Payment_save s2 payment1))))
             else
               (Inr \<lparr>status_code = 400,
                     body = [(''error'', PStr ''Verification failed'')]\<rparr>, s1))"

definition verify_payment ::
    "env \<Rightarrow> string option \<Rightarrow> state \<Rightarrow> (error + response) \<times> state" where
  "verify_payment e tx_ref_param s =
     (let tx_ref = (case tx_ref_param of None \<Rightarrow> [] | Some t \<Rightarrow> t)
      in if tx_ref = []
         then (Inr \<lparr>status_code = 400,
                    body = [(''error'', PStr ''Transaction reference is required'')]\<rparr>, s)
         else
           (case find (\<lambda>p. booking_reference p = tx_ref) (payments s) of
              None \<Rightarrow>
                (Inr \<lparr>status_code = 404, body = [(''error'', PStr ''Payment not found'')]\<rparr>, s)
            | Some payment \<Rightarrow>
                (case verify_headers e of
                   Inl err \<Rightarrow> (Inl err, s)
                 | Inr headers \<Rightarrow> verify_try e tx_ref headers payment s)))"

section \<open>Histories\<close>

text \<open>
  The states the application can be in: those a sequence of requests leads to from the
  empty database. Besides the three handlers a request can be an insert of a user, a
  listing, a booking with its property, or a payment row, through the ORM (the admin site,
  the shell, the generic create of \<^verbatim>\<open>PaymentViewSet\<close>).
\<close>

datatype request =
    Create_user User
  | Create_listing Listing
  | Create_booking uuid "uuid option" uuid date date "string option"
  | Create_payment Payment
  | Post_booking env BookingList_data
  | Initiate_payment env initiate_data
  | Verify_payment env "string option"

definition empty_state :: state where
  "empty_state =
     \<lparr>users = [], listings = [], bookings = [], payments = [], chapa_log = [], task_queue = []\<rparr>"

fun step :: "state \<Rightarrow> request \<Rightarrow> state" where
  "step s (Create_user u) =
     (case User_objects_create s u of Inl err \<Rightarrow> s | Inr s1 \<Rightarrow> s1)"
| "step s (Create_listing l) =
     (case Listing_objects_create s l of Inl err \<Rightarrow> s | Inr s1 \<Rightarrow> s1)"
| "step s (Create_booking i prop usr start end st) =
     (case Booking_objects_create s i prop usr start end st of
        Inl err \<Rightarrow> s
      | Inr (b, s1) \<Rightarrow> s1)"
| "step s (Create_payment p) =
     (case Payment_insert s p of Inl err \<Rightarrow> s | Inr s1 \<Rightarrow> s1)"
| "step s (Post_booking e d) = snd (BookingViewSet_create e d s)"
| "step s (Initiate_payment e d) = snd (initiate_payment e d s)"
| "step s (Verify_payment e t) = snd (verify_payment e t s)"

definition run :: "request list \<Rightarrow> state" where
  "run rs = foldl step empty_state rs"

section \<open>The unique columns of the payment table\<close>

text \<open>
  What the declarations promise of every stored payment table: no two rows share the
  primary key, the booking (one-to-one) or the booking reference.
\<close>

definition constraints_hold :: "state \<Rightarrow> bool" where
  "constraints_hold s =
     (distinct (map payment_id (payments s))
      \<and> distinct (map booking (payments s))
      \<and> distinct (map booking_reference (payments s)))"

section \<open>Sample data\<close>

text \<open>
  A host, a guest, a listing at 85.00 a night, bookings of that listing, request data and
  gateway answers, used where a statement is evaluated on concrete input. \<open>history0\<close> is
  the two users and the listing; \<open>history1\<close> adds a five-night booking of the listing and
  a first call of \<^verbatim>\<open>initiate_payment\<close> for that booking, which leaves the row
  \<open>payment1\<close>. \<open>bearer\<close> is the headers a call would carry if the key had been read.
\<close>

definition host1 :: User where
  "host1 = \<lparr>user_id = 100, email = ''admin@example.com'',
            first_name = ''Admin'', last_name = ''User''\<rparr>"

definition guest :: User where
  "guest = \<lparr>user_id = 200, email = ''jane.smith0@example.com'',
            first_name = ''Jane'', last_name = ''Smith''\<rparr>"

definition listing1 :: Listing where
  "listing1 = \<lparr>property_id = 1, host = 100, name = ''Cozy Studio'', description = ''Compact'',
               location = ''Seattle, WA'', pricepernight = 8500\<rparr>"

definition stay :: "uuid \<Rightarrow> date \<Rightarrow> date \<Rightarrow> string \<Rightarrow> Booking" where
  "stay i a b st =
     \<lparr>booking_id = i, property = 1, user = 200, start_date = a, end_date = b, status = st\<rparr>"

definition table :: "Booking list \<Rightarrow> state" where
  "table bs =
     \<lparr>users = [host1, guest], listings = [listing1], bookings = bs, payments = [],
      chapa_log = [], task_queue = []\<rparr>"

definition wants :: "date \<Rightarrow> date \<Rightarrow> attrs" where
  "wants a b = \<lparr>attr_start_date = Some a, attr_end_date = Some b, attr_property_id = Some 1,
                attr_user_id = Some 200, attr_status = None\<rparr>"

definition gateway_env :: "uuid \<Rightarrow> http_result \<Rightarrow> env" where
  "gateway_env i answer =
     \<lparr>request_user = guest,
      settings_module = [''CHAPA_SECRET_KEY'' \<mapsto> PStr ''CHASECK_TEST''],
      build_absolute_uri = (\<lambda>path. ''http://testserver'' @ path),
      new_uuid = i, chapa = (\<lambda>c. answer)\<rparr>"

definition verified :: "string \<Rightarrow> http_result" where
  "verified inner =
     HttpResponse 200 [(''status'', PStr ''success''), (''data'', PDict [(''status'', PStr inner)])]"

definition pay_for :: "uuid \<Rightarrow> initiate_data" where
  "pay_for i = \<lparr>data_booking_id = Denotes i, data_return_url = None\<rparr>"

definition history0 :: "request list" where
  "history0 = [Create_user host1, Create_user guest, Create_listing listing1]"

definition history1 :: "request list" where
  "history1 = history0 @
              [Create_booking 10 (Some 1) 200 10 15 None,
               Initiate_payment (gateway_env 50 (verified ''success'')) (pay_for 10)]"

definition payment1 :: Payment where
  "payment1 = \<lparr>payment_id = 50, booking = 10, amount = 42500, transaction_id = PNone,
                booking_reference = ''BK-'' @ uuid_str 10, status = ''pending'',
                payment_method = ''chapa''\<rparr>"

definition bearer :: "(string \<times> pyval) list" where
  "bearer = [(''Authorization'', PFormat ''Bearer {}'' [PStr ''CHASECK_TEST''])]"

section \<open>Lemmas about lists, the ORM operations and the handlers\<close>

lemmas sample_defs = host1_def guest_def listing1_def stay_def table_def gateway_env_def
  verified_def pay_for_def history0_def history1_def wants_def payment1_def bearer_def

lemmas orm_defs = Let_def User_objects_create_def Listing_objects_create_def
  Booking_objects_create_def Payment_insert_def Payment_objects_create_def
  Booking_objects_get_def Booking_save_def Payment_save_def total_price_def
  number_of_nights_def

lemmas view_defs = initiate_payment_def initiate_headers_def initiate_payload_def
  initiate_call_def verify_payment_def verify_headers_def verify_try_def perform_create_def
  BookingViewSet_create_def BookingListSerializer_save_def Booking_getattr_def
  Payment_getattr_def subscript_def inherited_attributes_def settings_env_def
  settings_getattr_def isupper_def pyval_call_def

lemma find_Some_set: "find P xs = Some x \<Longrightarrow> x \<in> set xs \<and> P x"
  by (auto simp: find_Some_iff)

lemma distinct_count_le_1:
  "distinct (map f xs) \<Longrightarrow> length (filter (\<lambda>q. f q = k) xs) \<le> 1"
proof (induction xs)
  case Nil
  then show ?case by simp
next
  case (Cons x xs)
  show ?case
  proof (cases "f x = k")
    case True
    with Cons.prems have "filter (\<lambda>q. f q = k) xs = []"
      by (auto simp: filter_empty_conv image_iff)
    with True show ?thesis by simp
  next
    case False
    with Cons show ?thesis by simp
  qed
qed

text \<open>
  \<^verbatim>\<open>env\<close> is not an upper-case name, so the settings object does not have it, whatever
  the settings module defines: both header dictionaries raise.
\<close>

lemma settings_has_no_env:
  "settings_env e key = Inl (AttributeError ''Settings'' ''env'')"
  by (simp add: settings_env_def settings_getattr_def isupper_def)

lemma initiate_headers_raise:
  "initiate_headers e = Inl (AttributeError ''Settings'' ''env'')"
  by (simp add: initiate_headers_def settings_has_no_env)

lemma verify_headers_raise:
  "verify_headers e = Inl (AttributeError ''Settings'' ''env'')"
  by (simp add: verify_headers_def settings_has_no_env)

lemma verify_payment_state: "snd (verify_payment e t s) = s"
  by (simp add: verify_payment_def Let_def verify_headers_raise split: option.splits)


lemma insert_keeps_rest:
  "Payment_insert s p = Inr s1 \<Longrightarrow>
   users s1 = users s \<and> listings s1 = listings s \<and> bookings s1 = bookings s
   \<and> payments s1 = payments s @ [p]
   \<and> chapa_log s1 = chapa_log s \<and> task_queue s1 = task_queue s"
  by (auto simp: Payment_insert_def split: if_splits)

lemma initiate_cases:
  "snd (initiate_payment e d s) = s \<or>
   (\<exists>p. Payment_insert s p = Inr (snd (initiate_payment e d s)))"
  by (auto simp: initiate_payment_def Payment_objects_create_def Let_def initiate_headers_raise
      split: option.splits sum.splits prod.splits)

lemma insert_constraints:
  assumes "Payment_insert s p = Inr s1" and "constraints_hold s"
  shows "constraints_hold s1"
proof -
  from assms(1) have fresh:
    "booking p \<notin> booking ` set (payments s)"
    "booking_reference p \<notin> booking_reference ` set (payments s)"
    "payment_id p \<notin> payment_id ` set (payments s)"
    by (auto simp: Payment_insert_def list_ex_iff split: if_splits)
  from assms(1) have "payments s1 = payments s @ [p]"
    by (simp add: insert_keeps_rest)
  with fresh assms(2) show ?thesis
    by (simp add: constraints_hold_def)
qed

lemma constraints_frame [simp]:
  "constraints_hold (s\<lparr>chapa_log := c\<rparr>) = constraints_hold s"
  "constraints_hold (s\<lparr>task_queue := q\<rparr>) = constraints_hold s"
  "constraints_hold (s\<lparr>bookings := bs\<rparr>) = constraints_hold s"
  "constraints_hold (s\<lparr>listings := ls\<rparr>) = constraints_hold s"
  "constraints_hold (s\<lparr>users := us\<rparr>) = constraints_hold s"
  by (simp_all add: constraints_hold_def)

lemma initiate_constraints:
  assumes "constraints_hold s"
  shows "constraints_hold (snd (initiate_payment e d s))"
  using initiate_cases [of e d s] assms by (auto intro: insert_constraints)

text \<open>
  The insert \<^verbatim>\<open>perform_create\<close> issues for the view's serializer names no property, so
  the database refuses it (the column is not nullable) and the handler ends there, with
  the state as it was.
\<close>

lemma create_refused_no_property:
  "BookingViewSet_create e d s = (Inl (IntegrityError ''property_id''), s)"
  by (simp add: BookingViewSet_create_def perform_create_def BookingListSerializer_save_def
      Booking_objects_create_def)

lemma step_constraints:
  "constraints_hold s \<Longrightarrow> constraints_hold (step s r)"
proof (cases r)
  case (Create_user u)
  then show "constraints_hold s \<Longrightarrow> ?thesis"
    by (simp add: User_objects_create_def)
next
  case (Create_listing l)
  then show "constraints_hold s \<Longrightarrow> ?thesis"
    by (simp add: Listing_objects_create_def)
next
  case (Create_booking i pr usr a b st)
  then show "constraints_hold s \<Longrightarrow> ?thesis"
    by (auto simp: Booking_objects_create_def Let_def split: option.splits)
next
  case (Create_payment p)
  then show "constraints_hold s \<Longrightarrow> ?thesis"
    by (auto intro: insert_constraints split: sum.splits)
next
  case (Post_booking e d)
  then show "constraints_hold s \<Longrightarrow> ?thesis"
    by (simp add: create_refused_no_property)
next
  case (Initiate_payment e d)
  then show "constraints_hold s \<Longrightarrow> ?thesis"
    by (simp add: initiate_constraints)
next
  case (Verify_payment e t)
  then show "constraints_hold s \<Longrightarrow> ?thesis"
    by (simp add: verify_payment_state)
qed

lemma run_constraints: "constraints_hold (run rs)"
proof (induction rs rule: rev_induct)
  case Nil
  then show ?case by (simp add: run_def empty_state_def constraints_hold_def)
next
  case (snoc r rs)
  then show ?case by (simp add: run_def step_constraints)
qed

lemma run_history0: "run history0 = table []"
  by (simp add: run_def empty_state_def sample_defs orm_defs)

lemma run_history1: "run history1 = (table [stay 10 10 15 ''pending''])\<lparr>payments := [payment1]\<rparr>"
  by (simp add: run_def empty_state_def sample_defs orm_defs view_defs)

section \<open>Availability validation: the claims\<close>

text \<open>
  What each validator reports, for ordered dates: \<^verbatim>\<open>Booking.clean\<close>, on a booking whose
  listing is stored, reports a conflict exactly when some booking of the property, of any
  status and the instance's own row included, overlaps;
  \<^verbatim>\<open>BookingDetailSerializer.validate\<close>, on data that name the property, exactly when some
  confirmed booking of the property other than the instance overlaps.
\<close>

lemma Booking_clean_conflict_iff:
  "start_date self < end_date self \<Longrightarrow>
   list_ex (\<lambda>l. property_id l = property self) (listings s) \<Longrightarrow>
   (Booking_clean s self
      = Inl (ValidationError ''This property is already booked for the selected dates.''))
   = (\<exists>b \<in> set (bookings s). property b = property self
         \<and> start_date b < end_date self \<and> end_date b > start_date self)"
proof -
  assume d: "start_date self < end_date self"
    and l: "list_ex (\<lambda>l. property_id l = property self) (listings s)"
  from l obtain x where f: "find (\<lambda>l. property_id l = property self) (listings s) = Some x"
    by (cases "find (\<lambda>l. property_id l = property self) (listings s)")
       (auto simp: find_None_iff list_ex_iff)
  from find_Some_set [OF f] have "property_id x = property self" by blast
  with d f show ?thesis
    by (auto simp: Booking_clean_def Let_def filter_empty_conv)
qed

lemma validate_conflict_iff:
  "attr_start_date a = Some sd \<Longrightarrow> attr_end_date a = Some ed \<Longrightarrow> sd < ed \<Longrightarrow>
   attr_property_id a = Some pid \<Longrightarrow>
   (BookingDetailSerializer_validate s self_instance a
      = Inl (SerializerValidationError
               ''This property is already booked for the selected dates.''))
   = (\<exists>b \<in> set (bookings s). property b = pid \<and> Booking.status b = ''confirmed''
         \<and> (case self_instance of None \<Rightarrow> True | Some x \<Rightarrow> booking_id b \<noteq> booking_id x)
         \<and> start_date b < ed \<and> end_date b > sd)"
  by (auto simp: BookingDetailSerializer_validate_def Let_def filter_empty_conv
      split: option.splits)

text \<open>
  C1. The two validators at concrete input, listing 1 with one stored booking of nights
  10 to 15 and a candidate range of nights 12 to 17. When the stored booking is
  \<^verbatim>\<open>pending\<close>, \<^verbatim>\<open>BookingDetailSerializer.validate\<close> reports no conflict (its query keeps
  the \<^verbatim>\<open>confirmed\<close> rows only) and returns the data; when the stored booking is
  \<^verbatim>\<open>canceled\<close>, \<^verbatim>\<open>Booking.clean\<close> reports a conflict (its query has no status filter).
\<close>

theorem C1_validators_miss_the_active_statuses:
  "BookingDetailSerializer_validate (table [stay 10 10 15 ''pending'']) None (wants 12 17)
     = Inr (wants 12 17)
   \<and> Booking_clean (table [stay 10 10 15 ''canceled'']) (stay 11 12 17 ''pending'')
       = Inl (ValidationError ''This property is already booked for the selected dates.'')"
  by (simp add: BookingDetailSerializer_validate_def Booking_clean_def sample_defs)

text \<open>
  C4. A create request with reversed dates (start on day 14, end on day 12) on the
  database of \<open>history0\<close>: the endpoint ends in the \<^verbatim>\<open>IntegrityError\<close> of the insert, not
  in a \<^verbatim>\<open>ValidationError\<close>, the state being as before; the date check is made by the two
  validators, which raise their \<^verbatim>\<open>ValidationError\<close> for these dates, and which the
  endpoint does not call.
\<close>

theorem C4_endpoint_reversed_dates_no_validation_error:
  "BookingViewSet_create (gateway_env 11 (verified ''success''))
       \<lparr>data_start_date = 14, data_end_date = 12, data_status = None\<rparr> (run history0)
     = (Inl (IntegrityError ''property_id''), run history0)
   \<and> Booking_clean (run history0) (stay 11 14 12 ''pending'')
       = Inl (ValidationError ''End date must be after start date.'')
   \<and> BookingDetailSerializer_validate (run history0) None (wants 14 12)
       = Inl (SerializerValidationError ''End date must be after start date.'')"
  unfolding run_history0
  by (simp add: BookingDetailSerializer_validate_def Booking_clean_def
      BookingViewSet_create_def perform_create_def BookingListSerializer_save_def
      Booking_objects_create_def sample_defs)

text \<open>
  C7. The serializer leaves the row of the booking being updated out of the conflict
  query; \<^verbatim>\<open>Booking.clean\<close> does not. Booking 10, confirmed for nights 10 to 15, is moved
  to nights 12 to 17, which overlap nothing but its own stored range: the serializer
  accepts the change, \<^verbatim>\<open>Booking.clean\<close> reports the property as already booked.
\<close>

theorem C7_clean_counts_own_row:
  "Booking_clean (table [stay 10 10 15 ''confirmed'']) (stay 10 12 17 ''confirmed'')
     = Inl (ValidationError ''This property is already booked for the selected dates.'')
   \<and> BookingDetailSerializer_validate (table [stay 10 10 15 ''confirmed''])
        (Some (stay 10 10 15 ''confirmed'')) (wants 12 17) = Inr (wants 12 17)"
  by (simp add: BookingDetailSerializer_validate_def Booking_clean_def sample_defs)

section \<open>Booking creation through the viewset: the claims\<close>

text \<open>
  C2. Every call of the create endpoint ends in the \<^verbatim>\<open>IntegrityError\<close> of the insert and
  leaves the state as it was: the view's serializer has no field for the property. So two
  create requests for overlapping nights (10 to 15, then 12 to 17), made by the guest on
  the database of \<open>history0\<close>, persist no booking at all.
\<close>

theorem C2_endpoint_persists_no_booking:
  "BookingViewSet_create e d s = (Inl (IntegrityError ''property_id''), s)
   \<and> run (history0 @
        [Post_booking (gateway_env 11 (verified ''success''))
           \<lparr>data_start_date = 10, data_end_date = 15, data_status = None\<rparr>,
         Post_booking (gateway_env 12 (verified ''success''))
           \<lparr>data_start_date = 12, data_end_date = 17, data_status = None\<rparr>])
      = run history0
   \<and> bookings (run history0) = []"
proof (intro conjI)
  show "BookingViewSet_create e d s = (Inl (IntegrityError ''property_id''), s)"
    by (simp add: BookingViewSet_create_def perform_create_def BookingListSerializer_save_def
        Booking_objects_create_def)
  then show "run (history0 @
        [Post_booking (gateway_env 11 (verified ''success''))
           \<lparr>data_start_date = 10, data_end_date = 15, data_status = None\<rparr>,
         Post_booking (gateway_env 12 (verified ''success''))
           \<lparr>data_start_date = 12, data_end_date = 17, data_status = None\<rparr>])
      = run history0"
    by (simp add: run_def BookingViewSet_create_def perform_create_def
        BookingListSerializer_save_def Booking_objects_create_def)
  show "bookings (run history0) = []"
    unfolding run_history0 by (simp add: table_def)
qed

section \<open>The notification job: the claims\<close>



section \<open>Payment verification: the claims\<close>

text \<open>
  C3. No call of \<^verbatim>\<open>verify_payment\<close> writes anything: a call that matches a payment raises
  \<^verbatim>\<open>AttributeError\<close> when the headers are built (\<^verbatim>\<open>settings.env\<close>), before the request
  to the gateway. After \<open>history1\<close>, with a gateway that answers success (outer and inner
  status) to every request, the call for the reference of booking 10 raises; the payment
  is still \<^verbatim>\<open>pending\<close>, not \<^verbatim>\<open>completed\<close>, the booking still \<^verbatim>\<open>pending\<close>, not
  \<^verbatim>\<open>confirmed\<close>, and no request has been sent.
\<close>

theorem C3_verify_payment_raises_before_the_gateway:
  "snd (verify_payment e t s) = s
   \<and> verify_payment (gateway_env 51 (verified ''success'')) (Some (''BK-'' @ uuid_str 10))
        (run history1)
      = (Inl (AttributeError ''Settings'' ''env''), run history1)
   \<and> map Payment.status (payments (run history1)) = [''pending'']
   \<and> map Booking.status (bookings (run history1)) = [''pending'']
   \<and> chapa_log (run history1) = []"
proof (intro conjI)
  show "snd (verify_payment e t s) = s"
    by (simp add: verify_payment_def Let_def verify_headers_raise split: option.splits)
  show "verify_payment (gateway_env 51 (verified ''success'')) (Some (''BK-'' @ uuid_str 10))
        (run history1)
      = (Inl (AttributeError ''Settings'' ''env''), run history1)"
    unfolding run_history1
    by (simp add: verify_payment_def Let_def verify_headers_raise table_def payment1_def)
  show "map Payment.status (payments (run history1)) = [''pending'']"
    unfolding run_history1 by (simp add: table_def payment1_def)
  show "map Booking.status (bookings (run history1)) = [''pending'']"
    unfolding run_history1 by (simp add: table_def stay_def)
  show "chapa_log (run history1) = []"
    unfolding run_history1 by (simp add: table_def)
qed

section \<open>Payment verification on a transport failure: the claims\<close>

text \<open>
  C6. After \<open>history1\<close>, with a gateway that refuses the connection. The call of
  \<^verbatim>\<open>verify_payment\<close> for the reference of booking 10 raises \<^verbatim>\<open>AttributeError\<close> while the
  headers are built and leaves the payment \<^verbatim>\<open>pending\<close>. The \<^verbatim>\<open>try\<close> block of the handler
  (lines 146-171), run with the headers \<open>bearer\<close>, answers 500 with the text of the error
  and writes no row: the payment is still \<^verbatim>\<open>pending\<close>, not \<^verbatim>\<open>failed\<close>. The \<^verbatim>\<open>except\<close>
  branch of \<^verbatim>\<open>initiate_payment\<close> (lines 119-123), on the same failure, saves the payment
  as \<^verbatim>\<open>failed\<close>.
\<close>

theorem C6_transport_error_leaves_payment_pending:
  "verify_payment (gateway_env 51 (RequestException ''Connection refused''))
       (Some (''BK-'' @ uuid_str 10)) (run history1)
     = (Inl (AttributeError ''Settings'' ''env''), run history1)
   \<and> verify_try (gateway_env 51 (RequestException ''Connection refused''))
        (''BK-'' @ uuid_str 10) bearer payment1 (run history1)
      = (Inr \<lparr>status_code = 500, body = [(''error'', PStr ''Connection refused'')]\<rparr>,
         (run history1)\<lparr>chapa_log :=
            [Chapa_get (''https://api.chapa.co/v1/transaction/verify/'' @ ''BK-'' @ uuid_str 10)
               bearer]\<rparr>)
   \<and> map Payment.status (payments (run history1)) = [''pending'']
   \<and> map Payment.status
        (payments (snd (initiate_call (gateway_env 51 (RequestException ''Connection refused''))
                          (run history1) payment1 bearer [])))
      = [''failed'']"
proof (intro conjI)
  show "verify_payment (gateway_env 51 (RequestException ''Connection refused''))
       (Some (''BK-'' @ uuid_str 10)) (run history1)
     = (Inl (AttributeError ''Settings'' ''env''), run history1)"
    unfolding run_history1
    by (simp add: verify_payment_def Let_def verify_headers_raise table_def payment1_def)
  show "verify_try (gateway_env 51 (RequestException ''Connection refused''))
        (''BK-'' @ uuid_str 10) bearer payment1 (run history1)
      = (Inr \<lparr>status_code = 500, body = [(''error'', PStr ''Connection refused'')]\<rparr>,
         (run history1)\<lparr>chapa_log :=
            [Chapa_get (''https://api.chapa.co/v1/transaction/verify/'' @ ''BK-'' @ uuid_str 10)
               bearer]\<rparr>)"
    unfolding run_history1
    by (simp add: verify_try_def Let_def gateway_env_def table_def)
  show "map Payment.status (payments (run history1)) = [''pending'']"
    unfolding run_history1 by (simp add: table_def payment1_def)
  show "map Payment.status
        (payments (snd (initiate_call (gateway_env 51 (RequestException ''Connection refused''))
                          (run history1) payment1 bearer [])))
      = [''failed'']"
    unfolding run_history1
    by (simp add: initiate_call_def Let_def gateway_env_def table_def Payment_save_def)
qed

section \<open>Payment initiation: the claims\<close>











section \<open>One payment per booking: the claims\<close>

text \<open>
  C8. In every state a sequence of requests leads to from the empty database, at most one
  payment row refers to any given booking; and an \<^verbatim>\<open>initiate_payment\<close> call for a booking
  that has a payment whose status is not \<^verbatim>\<open>failed\<close> ends in an error and leaves the state
  as it was, so no second payment is created. (The database refuses the insert whatever
  the status of the stored payment is; the claim asks for the statuses other than
  \<^verbatim>\<open>failed\<close>.)
\<close>

theorem C8_one_payment_per_booking:
  "length (filter (\<lambda>q. booking q = b) (payments (run rs))) \<le> 1
   \<and> (Booking_objects_get s (data_booking_id d) = Inr (Some bk)
        \<and> list_ex (\<lambda>q. booking q = booking_id bk \<and> Payment.status q \<noteq> ''failed'') (payments s)
       \<longrightarrow> (\<exists>err. initiate_payment e d s = (Inl err, s)))"
proof (intro conjI impI)
  have "distinct (map booking (payments (run rs)))"
    using run_constraints [of rs] by (simp add: constraints_hold_def)
  then show "length (filter (\<lambda>q. booking q = b) (payments (run rs))) \<le> 1"
    by (rule distinct_count_le_1)
next
  assume h: "Booking_objects_get s (data_booking_id d) = Inr (Some bk)
        \<and> list_ex (\<lambda>q. booking q = booking_id bk \<and> Payment.status q \<noteq> ''failed'') (payments s)"
  then have "list_ex (\<lambda>q. booking q = booking_id bk) (payments s)"
    by (auto simp: list_ex_iff)
  then have "\<And>amt. Payment_objects_create s (new_uuid e) bk amt (''BK-'' @ uuid_str (booking_id bk))
      = Inl (IntegrityError ''booking_id'')"
    by (simp add: Payment_objects_create_def Payment_insert_def Let_def)
  with h show "\<exists>err. initiate_payment e d s = (Inl err, s)"
    by (simp add: initiate_payment_def split: sum.splits)
qed

text \<open>
  The theorem at concrete input: \<open>history1\<close> followed by a second call of
  \<^verbatim>\<open>initiate_payment\<close> for booking 10, whose first payment is pending.
\<close>

theorem C8_one_payment_per_booking_witness:
  "length (filter (\<lambda>q. booking q = 10)
      (payments (run (history1 @
         [Initiate_payment (gateway_env 51 (verified ''success'')) (pay_for 10)])))) \<le> 1
   \<and> (\<exists>err. initiate_payment (gateway_env 51 (verified ''success'')) (pay_for 10)
              (run history1) = (Inl err, run history1))"
  using C8_one_payment_per_booking [of 10 "history1 @
         [Initiate_payment (gateway_env 51 (verified ''success'')) (pay_for 10)]"
         "run history1" "pay_for 10" "stay 10 10 15 ''pending''"
         "gateway_env 51 (verified ''success'')"]
  unfolding run_history1
  by (simp add: sample_defs Booking_objects_get_def)

end
